theory Spec2Isabelle
  imports Main
begin

section \<open>Python values, exceptions and dictionaries\<close>

text \<open>
  The engine (\<^verbatim>\<open>src/engine.py\<close>) is dynamically typed Python. Exceptions are values of
  type \<open>error\<close>; a function that can raise returns \<open>error + 'a\<close> with \<open>Inl\<close> the exception.
  Values that arrive from JSON (the enemy payload, the stored enemy snapshot) are \<open>pyval\<close>s:
  \<open>None\<close>, integers, strings, lists and tuples. JSON numbers with a fraction, booleans and
  nested objects are not part of this model.
\<close>

datatype error = TypeError | KeyError | ValueError

datatype pyval = PNone | PInt int | PStr string | PList "pyval list" | PTuple "pyval list"

text \<open>A \<^verbatim>\<open>dict\<close> with string keys, in insertion order.\<close>

type_synonym pydict = "(string \<times> pyval) list"

fun and_then :: "error + 'a \<Rightarrow> ('a \<Rightarrow> error + 'b) \<Rightarrow> error + 'b" where
  "and_then (Inl e) f = Inl e"
| "and_then (Inr x) f = f x"

text \<open>\<^verbatim>\<open>d.get(k, default)\<close>, \<^verbatim>\<open>d[k]\<close> and \<^verbatim>\<open>d[k] = v\<close>.\<close>

definition dict_get :: "pydict \<Rightarrow> string \<Rightarrow> pyval \<Rightarrow> pyval" where
  "dict_get d k dflt = (case map_of d k of None \<Rightarrow> dflt | Some v \<Rightarrow> v)"

definition dict_item :: "pydict \<Rightarrow> string \<Rightarrow> error + pyval" where
  "dict_item d k = (case map_of d k of None \<Rightarrow> Inl KeyError | Some v \<Rightarrow> Inr v)"

fun dict_set :: "pydict \<Rightarrow> string \<Rightarrow> pyval \<Rightarrow> pydict" where
  "dict_set [] k v = [(k, v)]"
| "dict_set ((k', v') # d) k v =
     (if k' = k then (k, v) # d else (k', v') # dict_set d k v)"

text \<open>
  \<^verbatim>\<open>list(x)\<close> and \<^verbatim>\<open>tuple(x)\<close>: a list, a tuple or a string is iterated; an integer or
  \<^verbatim>\<open>None\<close> is not iterable.
\<close>

fun py_iter :: "pyval \<Rightarrow> error + pyval list" where
  "py_iter (PList xs) = Inr xs"
| "py_iter (PTuple xs) = Inr xs"
| "py_iter (PStr s) = Inr (map (\<lambda>c. PStr [c]) s)"
| "py_iter (PInt i) = Inl TypeError"
| "py_iter PNone = Inl TypeError"

definition py_list :: "pyval \<Rightarrow> error + pyval" where
  "py_list x = and_then (py_iter x) (\<lambda>xs. Inr (PList xs))"

definition py_tuple :: "pyval \<Rightarrow> error + pyval" where
  "py_tuple x = and_then (py_iter x) (\<lambda>xs. Inr (PTuple xs))"

text \<open>
  \<^verbatim>\<open>min(a, x)\<close> and \<^verbatim>\<open>max(a, x)\<close> with \<open>a\<close> an integer: the built-in keeps its first
  argument unless the second is strictly smaller (larger); comparing an integer with a
  string, a list, a tuple or \<^verbatim>\<open>None\<close> raises \<^verbatim>\<open>TypeError\<close>.
\<close>

fun py_min :: "int \<Rightarrow> pyval \<Rightarrow> error + int" where
  "py_min a (PInt b) = Inr (if b < a then b else a)"
| "py_min a PNone = Inl TypeError"
| "py_min a (PStr s) = Inl TypeError"
| "py_min a (PList xs) = Inl TypeError"
| "py_min a (PTuple xs) = Inl TypeError"

fun py_max :: "int \<Rightarrow> pyval \<Rightarrow> error + int" where
  "py_max a (PInt b) = Inr (if a < b then b else a)"
| "py_max a PNone = Inl TypeError"
| "py_max a (PStr s) = Inl TypeError"
| "py_max a (PList xs) = Inl TypeError"
| "py_max a (PTuple xs) = Inl TypeError"

text \<open>
  An operand of integer arithmetic or of a comparison with an integer
  (\<^verbatim>\<open>total >= enemy.ac\<close>, \<^verbatim>\<open>enemy.hp -= damage\<close>): anything but an integer raises.
\<close>

fun as_int :: "pyval \<Rightarrow> error + int" where
  "as_int (PInt i) = Inr i"
| "as_int PNone = Inl TypeError"
| "as_int (PStr s) = Inl TypeError"
| "as_int (PList xs) = Inl TypeError"
| "as_int (PTuple xs) = Inl TypeError"

subsection \<open>\<^verbatim>\<open>str\<close> of an integer, for the display strings\<close>

definition digit_char :: "nat \<Rightarrow> char" where
  "digit_char d = char_of (48 + d)"

fun str_nat :: "nat \<Rightarrow> string" where
  "str_nat n = (if n < 10 then [digit_char n] else str_nat (n div 10) @ [digit_char (n mod 10)])"

declare str_nat.simps [simp del]

definition str_int :: "int \<Rightarrow> string" where
  "str_int i = (if i < 0 then CHR ''-'' # str_nat (nat (- i)) else str_nat (nat i))"

fun join_plus :: "string list \<Rightarrow> string" where
  "join_plus [] = []"
| "join_plus [s] = s"
| "join_plus (s # t # ss) = s @ ''+'' @ join_plus (t # ss)"

section \<open>Dice system\<close>

text \<open>
  \<^verbatim>\<open>random.Random\<close> is the standard library's generator. Its state is modelled as the
  infinite sequence of raw words it is still going to produce; \<^verbatim>\<open>randint(a, b)\<close>
  consumes the next word and maps it into \<open>[a, b]\<close>, and raises \<^verbatim>\<open>ValueError\<close> on an
  empty range, as the library does.
\<close>

type_synonym rng = "nat \<Rightarrow> nat"

definition randint :: "rng \<Rightarrow> int \<Rightarrow> int \<Rightarrow> error + (int \<times> rng)" where
  "randint g a b =
     (if b < a then Inl ValueError
      else Inr (a + int (g 0 mod nat (b - a + 1)), \<lambda>i. g (Suc i)))"

record DiceRoller =
  rng :: rng
  seed :: "int option"

text \<open>
  \<^verbatim>\<open>DiceRoller.__init__\<close>; \<open>Random\<close> stands for the library's \<^verbatim>\<open>random.Random(seed)\<close>, the
  state a seed (or \<^verbatim>\<open>None\<close>) initialises.
\<close>

definition DiceRoller_init :: "(int option \<Rightarrow> rng) \<Rightarrow> int option \<Rightarrow> DiceRoller" where
  "DiceRoller_init Random s = \<lparr>rng = Random s, seed = s\<rparr>"

text \<open>
  \<^verbatim>\<open>return self.seed if self.seed else random.randint(0, 999999)\<close>: the condition is the
  truth value of the seed, so \<^verbatim>\<open>None\<close> and \<open>0\<close> both take the second branch, which draws
  from the module-level generator \<open>random\<close>, not from \<open>self.rng\<close>.
\<close>

definition get_seed :: "DiceRoller \<Rightarrow> rng \<Rightarrow> error + (int \<times> rng)" where
  "get_seed dice random =
     (case seed dice of
        Some s \<Rightarrow> if s \<noteq> 0 then Inr (s, random) else randint random 0 999999
      | None \<Rightarrow> randint random 0 999999)"

text \<open>\<^verbatim>\<open>[self.rng.randint(1, die_size) for _ in range(num_dice)]\<close>\<close>

fun roll_each :: "nat \<Rightarrow> int \<Rightarrow> rng \<Rightarrow> error + (int list \<times> rng)" where
  "roll_each 0 die_size g = Inr ([], g)"
| "roll_each (Suc n) die_size g =
     and_then (randint g 1 die_size) (\<lambda>(r, g1).
     and_then (roll_each n die_size g1) (\<lambda>(rs, g2). Inr (r # rs, g2)))"

definition roll :: "DiceRoller \<Rightarrow> int \<Rightarrow> int \<Rightarrow> error + (int list \<times> int \<times> DiceRoller)" where
  "roll dice num_dice die_size =
     and_then (roll_each (nat num_dice) die_size (rng dice)) (\<lambda>(rolls, g).
     Inr (rolls, sum_list rolls, dice\<lparr>rng := g\<rparr>))"

definition sign_str :: "int \<Rightarrow> string" where
  "sign_str modifier = (if modifier \<ge> 0 then ''+'' else '''')"

definition roll_d20 ::
  "DiceRoller \<Rightarrow> int \<Rightarrow> string \<Rightarrow> bool \<Rightarrow> bool \<Rightarrow> error + (int \<times> int \<times> string \<times> DiceRoller)"
where
  "roll_d20 dice modifier stat_name advantage disadvantage =
     and_then
       (if advantage \<and> \<not> disadvantage then
          and_then (randint (rng dice) 1 20) (\<lambda>(roll1, g1).
          and_then (randint g1 1 20) (\<lambda>(roll2, g2).
          Inr (max roll1 roll2,
               '' (ADV: '' @ str_int roll1 @ '', '' @ str_int roll2 @ '')'', g2)))
        else if disadvantage \<and> \<not> advantage then
          and_then (randint (rng dice) 1 20) (\<lambda>(roll1, g1).
          and_then (randint g1 1 20) (\<lambda>(roll2, g2).
          Inr (min roll1 roll2,
               '' (DIS: '' @ str_int roll1 @ '', '' @ str_int roll2 @ '')'', g2)))
        else
          and_then (randint (rng dice) 1 20) (\<lambda>(raw, g1). Inr (raw, '''', g1)))
       (\<lambda>(raw, adv_str, g).
          let total = raw + modifier;
              display =
                (if stat_name \<noteq> '''' \<and> modifier \<noteq> 0 then
                   ''d20: '' @ str_int raw @ adv_str @ '' '' @ sign_str modifier @ '' ''
                     @ stat_name @ ''('' @ str_int modifier @ '') = '' @ str_int total
                 else if modifier \<noteq> 0 then
                   ''d20: '' @ str_int raw @ adv_str @ '' '' @ sign_str modifier
                     @ str_int modifier @ '' = '' @ str_int total
                 else ''d20: '' @ str_int raw @ adv_str)
          in Inr (raw, total, display, dice\<lparr>rng := g\<rparr>))"

definition roll_damage ::
  "DiceRoller \<Rightarrow> int \<Rightarrow> int \<Rightarrow> int \<Rightarrow> string \<Rightarrow> error + (int \<times> string \<times> DiceRoller)"
where
  "roll_damage dice num_dice die_size modifier stat_name =
     and_then (roll dice num_dice die_size) (\<lambda>(rolls, dice_total, dice1).
       let total = dice_total + modifier;
           rolls_str =
             (if length rolls = 1 then str_int (hd rolls)
              else ''('' @ join_plus (map str_int rolls) @ '')'');
           head = str_int num_dice @ ''d'' @ str_int die_size @ '': '' @ rolls_str;
           display =
             (if stat_name \<noteq> '''' \<and> modifier \<noteq> 0 then
                head @ '' '' @ sign_str modifier @ '' '' @ stat_name
                  @ ''('' @ str_int modifier @ '') = '' @ str_int total
              else if modifier \<noteq> 0 then
                head @ '' '' @ sign_str modifier @ str_int modifier @ '' = '' @ str_int total
              else head @ '' = '' @ str_int total)
       in Inr (max 1 total, display, dice1))"

text \<open>\<^verbatim>\<open>set_dice_seed\<close> replaces the global roller by a freshly seeded one.\<close>

definition set_dice_seed :: "(int option \<Rightarrow> rng) \<Rightarrow> int \<Rightarrow> DiceRoller" where
  "set_dice_seed Random s = DiceRoller_init Random (Some s)"

section \<open>Game data\<close>

record ability_info =
  ability_name :: string
  ability_description :: string
  uses :: int
  cooldown_type :: string
  effect :: string

record class_data =
  base_hp :: int
  primary_stat :: string
  starting_gold :: int
  starting_items :: "string list"
  ability :: ability_info

definition fighter_class :: class_data where
  "fighter_class =
     \<lparr>base_hp = 18, primary_stat = ''STR'', starting_gold = 10,
      starting_items = [''Longsword'', ''Chain Mail'', ''Health Potion''],
      ability = \<lparr>ability_name = ''Second Wind'', ability_description = ''Heal 1d10 + 2 HP'',
                 uses = 1, cooldown_type = ''rest'', effect = ''heal''\<rparr>\<rparr>"

definition rogue_class :: class_data where
  "rogue_class =
     \<lparr>base_hp = 12, primary_stat = ''DEX'', starting_gold = 15,
      starting_items = [''Dagger'', ''Leather Armor'', ''Lockpicks'', ''Health Potion''],
      ability = \<lparr>ability_name = ''Sneak Attack'',
                 ability_description = ''Deal +2d6 extra damage on your next attack'',
                 uses = 1, cooldown_type = ''combat'', effect = ''damage_boost''\<rparr>\<rparr>"

definition mage_class :: class_data where
  "mage_class =
     \<lparr>base_hp = 10, primary_stat = ''INT'', starting_gold = 12,
      starting_items = [''Staff'', ''Robes'', ''Spell Component Pouch'', ''Health Potion'',
                        ''Mana Potion''],
      ability = \<lparr>ability_name = ''Fireball'', ability_description = ''Unleash 3d6 fire damage'',
                 uses = 2, cooldown_type = ''day'', effect = ''direct_damage''\<rparr>\<rparr>"

definition CLASSES :: "(string \<times> class_data) list" where
  "CLASSES = [(''fighter'', fighter_class), (''rogue'', rogue_class), (''mage'', mage_class)]"

record weapon_data =
  weapon_damage_dice :: "int \<times> int"
  weapon_stat :: string
  weapon_description :: string

definition WEAPONS :: "(string \<times> weapon_data) list" where
  "WEAPONS =
     [(''Longsword'', \<lparr>weapon_damage_dice = (1, 8), weapon_stat = ''STR'',
         weapon_description = ''A reliable blade for any warrior''\<rparr>),
      (''Dagger'', \<lparr>weapon_damage_dice = (1, 4), weapon_stat = ''DEX'',
         weapon_description = ''Quick and deadly in skilled hands''\<rparr>),
      (''Staff'', \<lparr>weapon_damage_dice = (1, 6), weapon_stat = ''INT'',
         weapon_description = ''A focus for arcane power''\<rparr>),
      (''Rusty Sword'', \<lparr>weapon_damage_dice = (1, 6), weapon_stat = ''STR'',
         weapon_description = ''Seen better days, but still sharp''\<rparr>),
      (''Hand Axe'', \<lparr>weapon_damage_dice = (1, 6), weapon_stat = ''STR'',
         weapon_description = ''Good for chopping wood... or enemies''\<rparr>)]"

section \<open>Game state\<close>

record GameState =
  name :: string
  player_class :: string
  stats :: "(string \<times> (string \<times> int) list) list"
  hp :: int
  max_hp :: int
  ac :: int
  gold :: int
  inventory :: "string list"
  equipped_weapon :: string
  ability_uses :: int
  ability_max_uses :: int
  sneak_attack_available :: bool
  location :: string
  visited_locations :: "string list"
  world_flags :: pydict
  quests :: "(string \<times> pydict) list"
  active_quest :: "string option"
  in_combat :: bool
  current_enemy :: "pydict option"
  turn_count :: int
  story_summary :: string
  story_log :: "string list"
  game_started :: bool
  game_over :: bool
  ending :: "string option"

text \<open>The state a \<^verbatim>\<open>GameState()\<close> without arguments has: the defaults of the dataclass.\<close>

definition GameState_default :: GameState where
  "GameState_default =
     \<lparr>name = ''Adventurer'',
      player_class = ''fighter'',
      stats = [(''STR'', [(''score'', 10), (''modifier'', 0)]),
               (''DEX'', [(''score'', 10), (''modifier'', 0)]),
               (''INT'', [(''score'', 10), (''modifier'', 0)]),
               (''CHA'', [(''score'', 10), (''modifier'', 0)])],
      hp = 18,
      max_hp = 18,
      ac = 10,
      gold = 10,
      inventory = [],
      equipped_weapon = ''Fists'',
      ability_uses = 1,
      ability_max_uses = 1,
      sneak_attack_available = True,
      location = ''tavern'',
      visited_locations = [],
      world_flags = [],
      quests = [],
      active_quest = None,
      in_combat = False,
      current_enemy = None,
      turn_count = 0,
      story_summary = [],
      story_log = [],
      game_started = False,
      game_over = False,
      ending = None\<rparr>"

text \<open>\<^verbatim>\<open>self.stats.get(stat, {}).get("modifier", 0)\<close>\<close>

definition get_modifier :: "GameState \<Rightarrow> string \<Rightarrow> int" where
  "get_modifier state stat =
     (case map_of (stats state) stat of
        None \<Rightarrow> 0
      | Some entry \<Rightarrow> (case map_of entry ''modifier'' of None \<Rightarrow> 0 | Some m \<Rightarrow> m))"

text \<open>The methods that mutate \<^verbatim>\<open>self\<close> return the new state next to their result.\<close>

definition heal :: "GameState \<Rightarrow> int \<Rightarrow> int \<times> GameState" where
  "heal state amount =
     (let actual = min amount (max_hp state - hp state)
      in (actual, state\<lparr>hp := hp state + actual\<rparr>))"

definition take_damage :: "GameState \<Rightarrow> int \<Rightarrow> int \<times> GameState" where
  "take_damage state amount =
     (let actual = min amount (hp state)
      in (actual, state\<lparr>hp := hp state - actual\<rparr>))"

definition get_equipped_weapon_data :: "GameState \<Rightarrow> weapon_data" where
  "get_equipped_weapon_data state =
     (case map_of WEAPONS (equipped_weapon state) of
        Some w \<Rightarrow> w
      | None \<Rightarrow> \<lparr>weapon_damage_dice = (1, 2), weapon_stat = ''STR'',
                 weapon_description = ''Bare fists''\<rparr>)"

text \<open>\<^verbatim>\<open>CLASSES.get(self.player_class, CLASSES["fighter"])\<close>\<close>

definition get_class_data :: "GameState \<Rightarrow> class_data" where
  "get_class_data state =
     (case map_of CLASSES (player_class state) of Some c \<Rightarrow> c | None \<Rightarrow> fighter_class)"

definition get_ability_info :: "GameState \<Rightarrow> ability_info" where
  "get_ability_info state = ability (get_class_data state)"

definition use_ability :: "GameState \<Rightarrow> bool \<times> GameState" where
  "use_ability state =
     (if ability_uses state > 0 then (True, state\<lparr>ability_uses := ability_uses state - 1\<rparr>)
      else (False, state))"

section \<open>Enemies\<close>

text \<open>
  A dataclass does not check its annotations, so every field of an \<^verbatim>\<open>Enemy\<close> holds an
  arbitrary value. The fields \<^verbatim>\<open>name\<close>, \<^verbatim>\<open>hp\<close>, \<^verbatim>\<open>max_hp\<close> and \<^verbatim>\<open>ac\<close> carry the prefix
  \<open>enemy_\<close> here, since the game state has fields of the same names.
\<close>

record Enemy =
  enemy_name :: pyval
  enemy_hp :: pyval
  enemy_max_hp :: pyval
  enemy_ac :: pyval
  attack_bonus :: pyval
  damage_dice :: pyval
  damage_bonus :: pyval
  xp :: pyval
  gold_drop :: pyval
  behavior :: pyval
  description :: pyval
  loot :: pyval

definition to_dict :: "Enemy \<Rightarrow> error + pydict" where
  "to_dict e =
     and_then (py_list (damage_dice e)) (\<lambda>dd.
     and_then (py_list (gold_drop e)) (\<lambda>gd.
     Inr [(''name'', enemy_name e),
          (''hp'', enemy_hp e),
          (''max_hp'', enemy_max_hp e),
          (''ac'', enemy_ac e),
          (''attack_bonus'', attack_bonus e),
          (''damage_dice'', dd),
          (''damage_bonus'', damage_bonus e),
          (''xp'', xp e),
          (''gold_drop'', gd),
          (''behavior'', behavior e),
          (''description'', description e),
          (''loot'', loot e)]))"

text \<open>
  \<^verbatim>\<open>cls(**data)\<close>: a key that is not a field, or a missing field without a default, raises
  \<^verbatim>\<open>TypeError\<close>; \<^verbatim>\<open>description\<close> and \<^verbatim>\<open>loot\<close> have defaults.
\<close>

definition enemy_fields :: "string list" where
  "enemy_fields =
     [''name'', ''hp'', ''max_hp'', ''ac'', ''attack_bonus'', ''damage_dice'', ''damage_bonus'',
      ''xp'', ''gold_drop'', ''behavior'', ''description'', ''loot'']"

definition kwarg :: "pydict \<Rightarrow> string \<Rightarrow> error + pyval" where
  "kwarg d k = (case map_of d k of None \<Rightarrow> Inl TypeError | Some v \<Rightarrow> Inr v)"

definition Enemy_init :: "pydict \<Rightarrow> error + Enemy" where
  "Enemy_init d =
     (if \<not> list_all (\<lambda>k. k \<in> set enemy_fields) (map fst d) then Inl TypeError
      else
        and_then (kwarg d ''name'') (\<lambda>v_name.
        and_then (kwarg d ''hp'') (\<lambda>v_hp.
        and_then (kwarg d ''max_hp'') (\<lambda>v_max_hp.
        and_then (kwarg d ''ac'') (\<lambda>v_ac.
        and_then (kwarg d ''attack_bonus'') (\<lambda>v_attack_bonus.
        and_then (kwarg d ''damage_dice'') (\<lambda>v_damage_dice.
        and_then (kwarg d ''damage_bonus'') (\<lambda>v_damage_bonus.
        and_then (kwarg d ''xp'') (\<lambda>v_xp.
        and_then (kwarg d ''gold_drop'') (\<lambda>v_gold_drop.
        and_then (kwarg d ''behavior'') (\<lambda>v_behavior.
        Inr \<lparr>enemy_name = v_name, enemy_hp = v_hp, enemy_max_hp = v_max_hp, enemy_ac = v_ac,
             attack_bonus = v_attack_bonus, damage_dice = v_damage_dice,
             damage_bonus = v_damage_bonus, xp = v_xp, gold_drop = v_gold_drop,
             behavior = v_behavior,
             description = dict_get d ''description'' (PStr []),
             loot = dict_get d ''loot'' (PList [])\<rparr>)))))))))))"

text \<open>
  \<^verbatim>\<open>Enemy.from_dict\<close> assigns the two tuples into \<open>data\<close> itself before it builds the
  enemy, so the caller's dictionary is changed; the model returns it next to the enemy.
\<close>

definition from_dict :: "pydict \<Rightarrow> error + (Enemy \<times> pydict)" where
  "from_dict data =
     and_then (dict_item data ''damage_dice'') (\<lambda>dd.
     and_then (py_tuple dd) (\<lambda>dd_tuple.
       let data1 = dict_set data ''damage_dice'' dd_tuple in
       and_then (dict_item data1 ''gold_drop'') (\<lambda>gd.
       and_then (py_tuple gd) (\<lambda>gd_tuple.
         let data2 = dict_set data1 ''gold_drop'' gd_tuple in
         and_then (Enemy_init data2) (\<lambda>e. Inr (e, data2))))))"

text \<open>\<^verbatim>\<open>isinstance(x, list) and len(x) == 2\<close>, with the two elements.\<close>

fun list_of_two :: "pyval \<Rightarrow> (pyval \<times> pyval) option" where
  "list_of_two (PList [a, b]) = Some (a, b)"
| "list_of_two v = None"

text \<open>
  In the \<^verbatim>\<open>gold_drop\<close> pair, \<^verbatim>\<open>max(0, gold_drop[0])\<close> is evaluated first and raises unless
  \<^verbatim>\<open>gold_drop[0]\<close> is an integer, so the first argument of
  \<^verbatim>\<open>max(gold_drop[0], gold_drop[1])\<close> is an integer when that call is reached: it is the
  value as it came in, not the clamped one.
\<close>

definition create_enemy_from_llm :: "pydict \<Rightarrow> error + Enemy" where
  "create_enemy_from_llm enemy_data =
     (let v_name = dict_get enemy_data ''name'' (PStr ''Mysterious Creature'') in
      and_then (py_min 100 (dict_get enemy_data ''hp'' (PInt 10))) (\<lambda>hp_top.
      let v_hp = max 1 hp_top in
      and_then (py_min 20 (dict_get enemy_data ''ac'' (PInt 12))) (\<lambda>ac_top.
      let v_ac = max 8 ac_top in
      and_then (py_min 8 (dict_get enemy_data ''attack_bonus'' (PInt 2))) (\<lambda>ab_top.
      let v_attack_bonus = max (- 2) ab_top in
      and_then
        (case list_of_two (dict_get enemy_data ''damage_dice'' (PList [PInt 1, PInt 6])) of
           Some (d0, d1) \<Rightarrow>
             and_then (py_min 4 d0) (\<lambda>n_top.
             let num_dice = max 1 n_top in
             and_then (py_min 12 d1) (\<lambda>s_top.
             let die_size = max 4 s_top in
             Inr (PTuple [PInt num_dice, PInt die_size])))
         | None \<Rightarrow> Inr (PTuple [PInt 1, PInt 6]))
        (\<lambda>v_damage_dice.
      and_then (py_min 5 (dict_get enemy_data ''damage_bonus'' (PInt 1))) (\<lambda>db_top.
      let v_damage_bonus = max 0 db_top in
      and_then (py_min 500 (dict_get enemy_data ''xp'' (PInt 25))) (\<lambda>xp_top.
      let v_xp = max 10 xp_top in
      and_then
        (case list_of_two (dict_get enemy_data ''gold_drop'' (PList [PInt 1, PInt 5])) of
           Some (g0, g1) \<Rightarrow>
             and_then (py_max 0 g0) (\<lambda>low.
             and_then (as_int g0) (\<lambda>g0_int.
             and_then (py_max g0_int g1) (\<lambda>high.
             Inr (PTuple [PInt low, PInt high]))))
         | None \<Rightarrow> Inr (PTuple [PInt 1, PInt 5]))
        (\<lambda>v_gold_drop.
      Inr \<lparr>enemy_name = v_name,
           enemy_hp = PInt v_hp,
           enemy_max_hp = PInt v_hp,
           enemy_ac = PInt v_ac,
           attack_bonus = PInt v_attack_bonus,
           damage_dice = v_damage_dice,
           damage_bonus = PInt v_damage_bonus,
           xp = PInt v_xp,
           gold_drop = v_gold_drop,
           behavior = dict_get enemy_data ''behavior'' (PStr ''aggressive''),
           description = dict_get enemy_data ''description'' (PStr []),
           loot = dict_get enemy_data ''loot'' (PList [])\<rparr>))))))))"

section \<open>Combat\<close>

record CombatResult =
  success :: bool
  message :: string
  damage :: int
  roll_display :: string
  critical :: bool

text \<open>
  The engine's functions work on the game state they are given and on the global roller
  \<^verbatim>\<open>dice\<close>; both are passed in and returned. \<^verbatim>\<open>if not state.current_enemy\<close> holds for
  \<^verbatim>\<open>None\<close> and for the empty dictionary.

  \<^verbatim>\<open>player_attack\<close> never passes \<^verbatim>\<open>critical\<close> to \<^verbatim>\<open>CombatResult\<close>, so that field keeps its
  default \<^verbatim>\<open>False\<close> in every result.
\<close>

definition player_attack ::
  "GameState \<Rightarrow> bool \<Rightarrow> DiceRoller \<Rightarrow> error + (CombatResult \<times> GameState \<times> DiceRoller)"
where
  "player_attack state use_sneak_attack dice =
     (case current_enemy state of
        None \<Rightarrow>
          Inr (\<lparr>success = False, message = ''No enemy to attack!'', damage = 0,
                roll_display = [], critical = False\<rparr>, state, dice)
      | Some data \<Rightarrow>
          if data = [] then
            Inr (\<lparr>success = False, message = ''No enemy to attack!'', damage = 0,
                  roll_display = [], critical = False\<rparr>, state, dice)
          else
            and_then (from_dict data) (\<lambda>(enemy, data').
            let state1 = state\<lparr>current_enemy := Some data'\<rparr>;
                weapon = get_equipped_weapon_data state1;
                stat_name = weapon_stat weapon;
                modifier = get_modifier state1 stat_name
            in
            and_then (roll_d20 dice modifier stat_name False False)
              (\<lambda>(raw, total, roll_text, dice1).
            let is_critical = (raw = 20);
                critical_miss = (raw = 1)
            in
            if critical_miss then
              Inr (\<lparr>success = False, message = ''Critical miss! Your attack goes wide.'',
                    damage = 0, roll_display = roll_text, critical = False\<rparr>, state1, dice1)
            else
              and_then (as_int (enemy_ac enemy)) (\<lambda>ac_int.
              if total \<ge> ac_int \<or> is_critical then
                (let (num_dice, die_size) = weapon_damage_dice weapon;
                     num_dice' = (if is_critical then num_dice * 2 else num_dice)
                 in
                 and_then (roll_damage dice1 num_dice' die_size modifier stat_name)
                   (\<lambda>(dmg, dmg_display, dice2).
                 and_then
                   (if use_sneak_attack \<and> player_class state1 = ''rogue''
                         \<and> sneak_attack_available state1
                    then
                      and_then (roll dice2 2 6) (\<lambda>(sneak_rolls, sneak_total, dice3).
                      Inr (dmg + sneak_total,
                           dmg_display @ '' + Sneak('' @ str_int sneak_total @ '')'',
                           state1\<lparr>sneak_attack_available := False\<rparr>, dice3))
                    else Inr (dmg, dmg_display, state1, dice2))
                   (\<lambda>(dmg', dmg_display', state2, dice3).
                 and_then (as_int (enemy_hp enemy)) (\<lambda>hp_int.
                 let enemy' = enemy\<lparr>enemy_hp := PInt (hp_int - dmg')\<rparr> in
                 and_then (to_dict enemy') (\<lambda>snapshot.
                 let state3 = state2\<lparr>current_enemy := Some snapshot\<rparr>;
                     crit_text = (if is_critical then '' CRITICAL HIT!'' else [])
                 in
                 Inr (\<lparr>success = True, message = ''Hit!'' @ crit_text, damage = dmg',
                       roll_display = ''[Attack] '' @ roll_text @ '' vs AC '' @ str_int ac_int
                         @ [CHR 0x0A] @ ''[Damage] '' @ dmg_display',
                       critical = False\<rparr>, state3, dice3))))))
              else
                Inr (\<lparr>success = False,
                      message = ''Miss! AC '' @ str_int ac_int @ '' needed.'',
                      damage = 0,
                      roll_display = ''[Attack] '' @ roll_text @ '' vs AC '' @ str_int ac_int,
                      critical = False\<rparr>, state1, dice1)))))"

definition use_class_ability ::
  "GameState \<Rightarrow> DiceRoller \<Rightarrow> error + ((bool \<times> string \<times> int) \<times> GameState \<times> DiceRoller)"
where
  "use_class_ability state dice =
     (if ability_uses state \<le> 0 then
        Inr ((False, ''No ability uses remaining!'', 0), state, dice)
      else
        let ability = get_ability_info state;
            state1 = snd (use_ability state)
        in
        if effect ability = ''heal'' then
          and_then (roll dice 1 10) (\<lambda>(rolls, rolled, dice1).
          let heal_amount = rolled + 2;
              (actual, state2) = heal state1 heal_amount
          in Inr ((True, ''Second Wind! Healed '' @ str_int actual @ '' HP.'', actual),
                  state2, dice1))
        else if effect ability = ''direct_damage'' then
          and_then (roll dice 3 6) (\<lambda>(rolls, dmg, dice1).
          and_then
            (case current_enemy state1 of
               None \<Rightarrow> Inr state1
             | Some data \<Rightarrow>
                 if data = [] then Inr state1
                 else
                   and_then (from_dict data) (\<lambda>(enemy, data').
                   and_then (as_int (enemy_hp enemy)) (\<lambda>hp_int.
                   and_then (to_dict (enemy\<lparr>enemy_hp := PInt (hp_int - dmg)\<rparr>))
                     (\<lambda>snapshot.
                   Inr (state1\<lparr>current_enemy := Some snapshot\<rparr>)))))
            (\<lambda>state2.
          Inr ((True, ''Fireball! Dealt '' @ str_int dmg @ '' fire damage!'', dmg),
               state2, dice1)))
        else if effect ability = ''damage_boost'' then
          (let state2 = state1\<lparr>sneak_attack_available := True\<rparr>;
               state3 = state2\<lparr>ability_uses := ability_uses state2 + 1\<rparr>
           in Inr ((True, ''Sneak Attack ready! Use Attack to deal bonus damage.'', 0),
                   state3, dice))
        else Inr ((False, ''Unknown ability!'', 0), state1, dice))"

definition attempt_flee ::
  "GameState \<Rightarrow> DiceRoller \<Rightarrow> error + ((bool \<times> string) \<times> GameState \<times> DiceRoller)"
where
  "attempt_flee state dice =
     (let dex_mod = get_modifier state ''DEX'' in
      and_then (roll_d20 dice dex_mod ''DEX'' False False) (\<lambda>(raw, total, roll_text, dice1).
      if total \<ge> 12 then
        (let state1 = state\<lparr>in_combat := False\<rparr>;
             state2 = state1\<lparr>current_enemy := None\<rparr>;
             state3 = state2\<lparr>sneak_attack_available := True\<rparr>
         in Inr ((True, ''[Flee] '' @ roll_text @ '' vs DC 12 - Escaped!''), state3, dice1))
      else
        Inr ((False, ''[Flee] '' @ roll_text @ '' vs DC 12 - Failed to escape!''),
             state, dice1)))"

section \<open>Save and load\<close>

text \<open>
  The save file is the JSON document \<^verbatim>\<open>save_data\<close>; the file system is reduced to the
  document that \<^verbatim>\<open>save_game\<close> writes and \<^verbatim>\<open>load_game\<close> reads (\<open>None\<close>: no file), and the
  result messages, which carry the file path, are left out. \<open>random\<close> is the module-level
  generator that \<^verbatim>\<open>get_seed\<close> may draw from, \<open>now\<close> the time stamp. Any exception inside
  \<^verbatim>\<open>save_game\<close> is caught and reported as failure. A document has the four entries that
  \<^verbatim>\<open>save_game\<close> writes.
\<close>

definition SAVE_VERSION :: string where
  "SAVE_VERSION = ''1.0''"

record save_data =
  version :: string
  timestamp :: string
  game_state :: GameState
  rng_seed :: int

definition save_game ::
  "GameState \<Rightarrow> DiceRoller \<Rightarrow> rng \<Rightarrow> string \<Rightarrow> bool \<times> save_data option \<times> rng"
where
  "save_game state dice random now =
     (case get_seed dice random of
        Inr (s, random') \<Rightarrow>
          (True,
           Some \<lparr>version = SAVE_VERSION, timestamp = now, game_state = state, rng_seed = s\<rparr>,
           random')
      | Inl e \<Rightarrow> (False, None, random))"

definition load_game ::
  "(int option \<Rightarrow> rng) \<Rightarrow> save_data option \<Rightarrow> DiceRoller \<Rightarrow> GameState option \<times> DiceRoller"
where
  "load_game Random file dice =
     (case file of
        None \<Rightarrow> (None, dice)
      | Some doc \<Rightarrow>
          if version doc \<noteq> SAVE_VERSION then (None, dice)
          else (Some (game_state doc), set_dice_seed Random (rng_seed doc)))"

section \<open>Basic facts\<close>

lemma and_then_Inr_iff:
  "and_then m f = Inr y \<longleftrightarrow> (\<exists>x. m = Inr x \<and> f x = Inr y)"
  by (cases m) simp_all

lemma map_of_dict_set: "map_of (dict_set d k v) = (map_of d)(k \<mapsto> v)"
  by (induction d) (auto simp: fun_eq_iff)

lemma py_min_le: "py_min a v = Inr m \<Longrightarrow> m \<le> a"
  by (cases v) (auto split: if_splits)

lemma py_max_ge: "py_max a v = Inr m \<Longrightarrow> a \<le> m"
  by (cases v) (auto split: if_splits)

subsection \<open>Dice\<close>

lemma randint_ok:
  "a \<le> b \<Longrightarrow> \<exists>r. randint g a b = Inr (r, \<lambda>i. g (Suc i)) \<and> a \<le> r \<and> r \<le> b"
proof -
  assume ab: "a \<le> b"
  have pos: "0 < nat (b - a + 1)" using ab by simp
  have "g 0 mod nat (b - a + 1) < nat (b - a + 1)" using pos by simp
  hence "int (g 0 mod nat (b - a + 1)) \<le> b - a" using ab by linarith
  thus ?thesis using ab by (simp add: randint_def)
qed

lemma roll_each_ok:
  "1 \<le> die_size \<Longrightarrow>
   \<exists>rs g'. roll_each n die_size g = Inr (rs, g') \<and> length rs = n
      \<and> (\<forall>r \<in> set rs. 1 \<le> r \<and> r \<le> die_size)"
proof (induction n arbitrary: g)
  case 0
  show ?case by simp
next
  case (Suc n)
  from randint_ok [OF Suc.prems, of g] obtain r
    where r: "randint g 1 die_size = Inr (r, \<lambda>i. g (Suc i))" "1 \<le> r" "r \<le> die_size"
    by blast
  from Suc.IH [OF Suc.prems, of "\<lambda>i. g (Suc i)"] obtain rs g'
    where rs: "roll_each n die_size (\<lambda>i. g (Suc i)) = Inr (rs, g')" "length rs = n"
      "\<forall>x \<in> set rs. 1 \<le> x \<and> x \<le> die_size"
    by blast
  show ?case using r rs by simp
qed

lemma roll_ok:
  "1 \<le> die_size \<Longrightarrow>
   \<exists>rs g'. roll dice num_dice die_size = Inr (rs, sum_list rs, dice\<lparr>rng := g'\<rparr>)
     \<and> length rs = nat num_dice \<and> (\<forall>r \<in> set rs. 1 \<le> r \<and> r \<le> die_size)"
proof -
  assume d: "1 \<le> die_size"
  from roll_each_ok [OF d, of "nat num_dice" "rng dice"] obtain rs g'
    where "roll_each (nat num_dice) die_size (rng dice) = Inr (rs, g')" "length rs = nat num_dice"
      "\<forall>r \<in> set rs. 1 \<le> r \<and> r \<le> die_size"
    by blast
  thus ?thesis by (auto simp: roll_def)
qed

text \<open>A plain d20 roll never raises; it shows the next word of the generator, mapped to 1..20.\<close>

lemma roll_d20_plain:
  "\<exists>rtext. roll_d20 dice m stat False False
       = Inr (1 + int (rng dice 0 mod 20), 1 + int (rng dice 0 mod 20) + m, rtext,
              dice\<lparr>rng := \<lambda>i. rng dice (Suc i)\<rparr>)"
  by (simp add: roll_d20_def randint_def Let_def)

lemma roll_damage_run:
  assumes "1 \<le> sz"
  shows "\<exists>rs g' dtext. roll_each (nat k) sz (rng dice) = Inr (rs, g')
     \<and> roll dice k sz = Inr (rs, sum_list rs, dice\<lparr>rng := g'\<rparr>)
     \<and> roll_damage dice k sz m stat = Inr (max 1 (sum_list rs + m), dtext, dice\<lparr>rng := g'\<rparr>)
     \<and> length rs = nat k"
proof -
  from roll_each_ok [OF assms, of "nat k" "rng dice"] obtain rs g'
    where "roll_each (nat k) sz (rng dice) = Inr (rs, g')" "length rs = nat k"
    by blast
  thus ?thesis by (simp add: roll_damage_def roll_def Let_def)
qed

text \<open>
  Claim C8. For every dice count of at least one, every die size of at least one and every
  integer modifier, \<^verbatim>\<open>roll_damage\<close> returns (it does not raise), and the total it returns
  is at least 1.
\<close>

theorem roll_damage_at_least_one:
  "1 \<le> num_dice \<Longrightarrow> 1 \<le> die_size \<Longrightarrow>
   \<exists>total display dice'.
     roll_damage dice num_dice die_size modifier stat_name = Inr (total, display, dice')
     \<and> 1 \<le> total"
proof -
  assume "1 \<le> num_dice" and d: "1 \<le> die_size"
  from roll_ok [OF d, of dice num_dice] obtain rs g'
    where "roll dice num_dice die_size = Inr (rs, sum_list rs, dice\<lparr>rng := g'\<rparr>)"
    by blast
  thus ?thesis by (simp add: roll_damage_def Let_def)
qed

theorem roll_damage_at_least_one_witness:
  "(1::int) \<le> 2 \<and> (1::int) \<le> 6 \<and>
   (\<exists>total display dice'.
      roll_damage \<lparr>rng = (\<lambda>i. 0), seed = None\<rparr> 2 6 (- 99) ''STR'' = Inr (total, display, dice')
      \<and> 1 \<le> total)"
  using roll_damage_at_least_one [of 2 6 "\<lparr>rng = (\<lambda>i. 0), seed = None\<rparr>" "- 99" "''STR''"]
  by simp

subsection \<open>The seed that is saved\<close>

lemma get_seed_nonzero:
  "s \<noteq> 0 \<Longrightarrow> get_seed (DiceRoller_init Random (Some s)) random = Inr (s, random)"
  by (simp add: get_seed_def DiceRoller_init_def)

text \<open>
  With a seed other than 0 the save holds that seed, and loading it installs a roller whose
  generator is the one that seed initialises.
\<close>

lemma save_load_nonzero:
  "s \<noteq> 0 \<Longrightarrow>
   \<exists>doc random'.
     save_game state (DiceRoller_init Random (Some s)) random now = (True, Some doc, random')
     \<and> rng_seed doc = s
     \<and> load_game Random (Some doc) dice0 = (Some state, DiceRoller_init Random (Some s))"
  by (simp add: save_game_def get_seed_nonzero load_game_def set_dice_seed_def)

text \<open>
  Claim C2 says that a roller constructed with any integer seed \<open>s\<close> reports \<open>s\<close>, so that
  the save holds the seed that governs the session. At seed 0 the code does not: the seed is
  tested for truth, 0 counts as absent, and \<^verbatim>\<open>get_seed\<close> answers with a number drawn from
  the module-level generator. With that generator about to produce 41, the roller seeded
  with 0 reports 41 and \<^verbatim>\<open>save_game\<close> stores 41.
\<close>

theorem get_seed_zero_is_redrawn:
  "get_seed (DiceRoller_init Random (Some 0)) random = randint random 0 999999
   \<and> get_seed (DiceRoller_init Random (Some 0)) (\<lambda>i. 41) = Inr (41, \<lambda>i. 41)
   \<and> save_game state (DiceRoller_init Random (Some 0)) (\<lambda>i. 41) now =
       (True,
        Some \<lparr>version = SAVE_VERSION, timestamp = now, game_state = state, rng_seed = 41\<rparr>,
        \<lambda>i. 41)"
  by (simp add: get_seed_def DiceRoller_init_def randint_def save_game_def)

subsection \<open>Hit points\<close>

text \<open>
  Claim C4. In a state with \<open>0 \<le> hp \<le> max_hp\<close> and for a non-negative amount, \<^verbatim>\<open>heal\<close>
  adds \<open>min amount (max_hp - hp)\<close> and \<^verbatim>\<open>take_damage\<close> subtracts \<open>min amount hp\<close>; each
  returns that amount, which is the change of \<open>hp\<close> it made, and after either one
  \<open>0 \<le> hp \<le> max_hp\<close> still holds. No other field changes.
\<close>

theorem heal_take_damage_bounds:
  "0 \<le> hp s \<Longrightarrow> hp s \<le> max_hp s \<Longrightarrow> 0 \<le> amount \<Longrightarrow>
   heal s amount =
     (min amount (max_hp s - hp s), s\<lparr>hp := hp s + min amount (max_hp s - hp s)\<rparr>)
   \<and> 0 \<le> hp (snd (heal s amount))
   \<and> hp (snd (heal s amount)) \<le> max_hp (snd (heal s amount))
   \<and> fst (heal s amount) = hp (snd (heal s amount)) - hp s
   \<and> take_damage s amount = (min amount (hp s), s\<lparr>hp := hp s - min amount (hp s)\<rparr>)
   \<and> 0 \<le> hp (snd (take_damage s amount))
   \<and> hp (snd (take_damage s amount)) \<le> max_hp (snd (take_damage s amount))
   \<and> fst (take_damage s amount) = hp s - hp (snd (take_damage s amount))"
  by (simp add: heal_def take_damage_def Let_def min_def)

theorem heal_take_damage_bounds_witness:
  "fst (heal (GameState_default\<lparr>hp := 10\<rparr>) 12) = 8
   \<and> hp (snd (heal (GameState_default\<lparr>hp := 10\<rparr>) 12)) = 18
   \<and> fst (take_damage (GameState_default\<lparr>hp := 10\<rparr>) 12) = 10
   \<and> hp (snd (take_damage (GameState_default\<lparr>hp := 10\<rparr>) 12)) = 0"
proof -
  have h: "0 \<le> hp (GameState_default\<lparr>hp := 10\<rparr>)"
    "hp (GameState_default\<lparr>hp := 10\<rparr>) \<le> max_hp (GameState_default\<lparr>hp := 10\<rparr>)"
    "(0::int) \<le> 12"
    by (simp_all add: GameState_default_def)
  from heal_take_damage_bounds [OF h] show ?thesis
    by (simp add: GameState_default_def)
qed

section \<open>Enemies\<close>

subsection \<open>Snapshots\<close>

lemma from_dict_tuples:
  assumes "from_dict d = Inr (e, d')"
  shows "\<exists>dd gd. damage_dice e = PTuple dd \<and> gold_drop e = PTuple gd"
  using assms
  by (auto simp: from_dict_def Let_def and_then_Inr_iff Enemy_init_def kwarg_def dict_item_def
        map_of_dict_set py_tuple_def split: if_splits option.splits)

text \<open>
  Claim C9. For an enemy whose \<^verbatim>\<open>damage_dice\<close> and \<^verbatim>\<open>gold_drop\<close> are tuples (of any length
  and content) and whose other fields, \<^verbatim>\<open>loot\<close> among them, hold any values, \<^verbatim>\<open>to_dict\<close>
  returns a dictionary from which \<^verbatim>\<open>from_dict\<close> returns the same enemy, field for field.
\<close>

theorem enemy_round_trip:
  "damage_dice e = PTuple dd \<Longrightarrow> gold_drop e = PTuple gd \<Longrightarrow>
   \<exists>d d'. to_dict e = Inr d \<and> from_dict d = Inr (e, d')"
  by (cases e)
     (simp add: to_dict_def py_list_def from_dict_def dict_item_def py_tuple_def
        Enemy_init_def kwarg_def dict_get_def enemy_fields_def Let_def)

theorem enemy_round_trip_witness:
  "\<exists>d d'.
     to_dict \<lparr>enemy_name = PStr ''Goblin'', enemy_hp = PInt 7, enemy_max_hp = PInt 7,
              enemy_ac = PInt 13, attack_bonus = PInt 3, damage_dice = PTuple [PInt 1, PInt 6],
              damage_bonus = PInt 1, xp = PInt 25, gold_drop = PTuple [PInt 1, PInt 5],
              behavior = PStr ''aggressive'', description = PStr ''small and mean'',
              loot = PList [PStr ''Torch'']\<rparr> = Inr d
     \<and> from_dict d =
         Inr (\<lparr>enemy_name = PStr ''Goblin'', enemy_hp = PInt 7, enemy_max_hp = PInt 7,
               enemy_ac = PInt 13, attack_bonus = PInt 3, damage_dice = PTuple [PInt 1, PInt 6],
               damage_bonus = PInt 1, xp = PInt 25, gold_drop = PTuple [PInt 1, PInt 5],
               behavior = PStr ''aggressive'', description = PStr ''small and mean'',
               loot = PList [PStr ''Torch'']\<rparr>, d')"
  using enemy_round_trip
    [of "\<lparr>enemy_name = PStr ''Goblin'', enemy_hp = PInt 7, enemy_max_hp = PInt 7,
          enemy_ac = PInt 13, attack_bonus = PInt 3, damage_dice = PTuple [PInt 1, PInt 6],
          damage_bonus = PInt 1, xp = PInt 25, gold_drop = PTuple [PInt 1, PInt 5],
          behavior = PStr ''aggressive'', description = PStr ''small and mean'',
          loot = PList [PStr ''Torch'']\<rparr>" "[PInt 1, PInt 6]" "[PInt 1, PInt 5]"]
  by simp

text \<open>
  An enemy that holds a list where the annotation asks for a tuple comes back with the tuple.
\<close>

lemma from_dict_to_dict_list_field:
  "damage_dice e = PList dd \<Longrightarrow> gold_drop e = PTuple gd \<Longrightarrow>
   \<exists>d d'. to_dict e = Inr d \<and> from_dict d = Inr (e\<lparr>damage_dice := PTuple dd\<rparr>, d')"
  by (cases e)
     (simp add: to_dict_def py_list_def from_dict_def dict_item_def py_tuple_def
        Enemy_init_def kwarg_def dict_get_def enemy_fields_def Let_def)

subsection \<open>Enemies from the narrative layer\<close>

text \<open>
  Whenever \<^verbatim>\<open>create_enemy_from_llm\<close> returns an enemy, the numeric fields and the damage
  dice are within their bounds and the lower end of \<^verbatim>\<open>gold_drop\<close> is not negative. (It
  raises \<^verbatim>\<open>TypeError\<close> when a numeric entry of the payload is not a number.)
\<close>

lemma create_enemy_from_llm_clamps:
  assumes "create_enemy_from_llm d = Inr e"
  shows "\<exists>h a b db x.
     enemy_hp e = PInt h \<and> enemy_max_hp e = PInt h \<and> 1 \<le> h \<and> h \<le> 100
     \<and> enemy_ac e = PInt a \<and> 8 \<le> a \<and> a \<le> 20
     \<and> attack_bonus e = PInt b \<and> - 2 \<le> b \<and> b \<le> 8
     \<and> damage_bonus e = PInt db \<and> 0 \<le> db \<and> db \<le> 5
     \<and> xp e = PInt x \<and> 10 \<le> x \<and> x \<le> 500"
  using assms
  by (auto simp: create_enemy_from_llm_def Let_def and_then_Inr_iff dest!: py_min_le)

lemma create_enemy_from_llm_dice:
  assumes "create_enemy_from_llm d = Inr e"
  shows "\<exists>n sz. damage_dice e = PTuple [PInt n, PInt sz]
     \<and> 1 \<le> n \<and> n \<le> 4 \<and> 4 \<le> sz \<and> sz \<le> 12"
  using assms
  by (auto simp: create_enemy_from_llm_def Let_def and_then_Inr_iff
        split: option.splits dest!: py_min_le)

lemma create_enemy_from_llm_gold_low:
  assumes "create_enemy_from_llm d = Inr e"
  shows "\<exists>lo hi. gold_drop e = PTuple [PInt lo, PInt hi] \<and> 0 \<le> lo"
  using assms
  by (auto simp: create_enemy_from_llm_def Let_def and_then_Inr_iff
        split: option.splits dest!: py_max_ge)

text \<open>The three inputs the specification names come out as it says.\<close>

lemma create_enemy_from_llm_examples:
  "\<exists>e. create_enemy_from_llm
          [(''hp'', PInt 9999), (''attack_bonus'', PInt (- 50)),
           (''gold_drop'', PList [PInt 5, PInt 2])] = Inr e
     \<and> enemy_hp e = PInt 100 \<and> attack_bonus e = PInt (- 2)
     \<and> gold_drop e = PTuple [PInt 5, PInt 5]"
  by (simp add: create_enemy_from_llm_def dict_get_def Let_def)

text \<open>
  Claim C1 says that every constructed enemy has \<^verbatim>\<open>gold_drop\<close> high \<open>\<ge>\<close> low. The upper
  end is \<^verbatim>\<open>max(gold_drop[0], gold_drop[1])\<close>, taken against the lower end as it came in and
  not against the clamped one, so the payload \<^verbatim>\<open>{"gold_drop": [-5, -3]}\<close> yields the pair
  \<open>(0, -3)\<close>: low is 0 and high is below it.
\<close>

theorem create_enemy_from_llm_gold_drop_inverted:
  "create_enemy_from_llm [(''gold_drop'', PList [PInt (- 5), PInt (- 3)])] =
     Inr \<lparr>enemy_name = PStr ''Mysterious Creature'', enemy_hp = PInt 10, enemy_max_hp = PInt 10,
          enemy_ac = PInt 12, attack_bonus = PInt 2, damage_dice = PTuple [PInt 1, PInt 6],
          damage_bonus = PInt 1, xp = PInt 25, gold_drop = PTuple [PInt 0, PInt (- 3)],
          behavior = PStr ''aggressive'', description = PStr [], loot = PList []\<rparr>"
  by (simp add: create_enemy_from_llm_def dict_get_def Let_def)

section \<open>Combat\<close>

subsection \<open>Class ability\<close>

text \<open>
  Claim C7. With no ability use left (\<open>ability_uses \<le> 0\<close>), \<^verbatim>\<open>use_class_ability\<close> returns
  the failure triple with its message; it does not raise, and the game state and the roller
  are returned as they were.
\<close>

theorem use_class_ability_exhausted:
  "ability_uses s \<le> 0 \<Longrightarrow>
   use_class_ability s dice = Inr ((False, ''No ability uses remaining!'', 0), s, dice)"
  by (simp add: use_class_ability_def)

theorem use_class_ability_exhausted_witness:
  "use_class_ability (GameState_default\<lparr>ability_uses := 0\<rparr>) \<lparr>rng = (\<lambda>i. 3), seed = None\<rparr>
     = Inr ((False, ''No ability uses remaining!'', 0),
            GameState_default\<lparr>ability_uses := 0\<rparr>, \<lparr>rng = (\<lambda>i. 3), seed = None\<rparr>)"
  using use_class_ability_exhausted
    [of "GameState_default\<lparr>ability_uses := 0\<rparr>" "\<lparr>rng = (\<lambda>i. 3), seed = None\<rparr>"]
  by simp

lemma rogue_has_damage_boost:
  "player_class s = ''rogue'' \<Longrightarrow> effect (get_ability_info s) = ''damage_boost''"
  by (simp add: get_ability_info_def get_class_data_def CLASSES_def rogue_class_def)

text \<open>
  Claim C6. For a player whose class ability has the effect \<^verbatim>\<open>damage_boost\<close> and who has
  an ability use left, \<^verbatim>\<open>use_class_ability\<close> succeeds, \<^verbatim>\<open>sneak_attack_available\<close> is true
  afterwards and \<^verbatim>\<open>ability_uses\<close> is what it was before; nothing else changes, and no die
  is rolled.
\<close>

theorem use_class_ability_damage_boost_refund:
  "effect (get_ability_info s) = ''damage_boost'' \<Longrightarrow> 0 < ability_uses s \<Longrightarrow>
   \<exists>msg s'. use_class_ability s dice = Inr ((True, msg, 0), s', dice)
     \<and> sneak_attack_available s'
     \<and> ability_uses s' = ability_uses s
     \<and> s' = s\<lparr>sneak_attack_available := True\<rparr>"
  by (simp add: use_class_ability_def use_ability_def Let_def)

theorem use_class_ability_damage_boost_refund_witness:
  "\<exists>msg s'.
     use_class_ability
       (GameState_default\<lparr>player_class := ''rogue'', sneak_attack_available := False\<rparr>)
       \<lparr>rng = (\<lambda>i. 3), seed = None\<rparr>
       = Inr ((True, msg, 0), s', \<lparr>rng = (\<lambda>i. 3), seed = None\<rparr>)
     \<and> sneak_attack_available s' \<and> ability_uses s' = 1"
proof -
  let ?s = "GameState_default\<lparr>player_class := ''rogue'', sneak_attack_available := False\<rparr>"
  have e: "effect (get_ability_info ?s) = ''damage_boost''"
    by (simp add: get_ability_info_def get_class_data_def CLASSES_def rogue_class_def
          GameState_default_def)
  have u: "0 < ability_uses ?s"
    by (simp add: GameState_default_def)
  from use_class_ability_damage_boost_refund [OF e u, of "\<lparr>rng = (\<lambda>i. 3), seed = None\<rparr>"]
  show ?thesis
    by (auto simp: GameState_default_def)
qed

subsection \<open>Flee\<close>

text \<open>
  Claim C5. In every state and with every roller, \<^verbatim>\<open>attempt_flee\<close> returns (it does not
  raise). It rolls one d20 and adds the DEX modifier; it succeeds exactly when that total is
  at least 12. On success the new state is the old one with \<^verbatim>\<open>in_combat\<close> false,
  \<^verbatim>\<open>current_enemy\<close> \<^verbatim>\<open>None\<close> and \<^verbatim>\<open>sneak_attack_available\<close> true, all three together; on
  failure the state is the old one.
\<close>

theorem attempt_flee_outcome:
  "\<exists>raw tot rtext dice1 ok msg s'.
     roll_d20 dice (get_modifier s ''DEX'') ''DEX'' False False = Inr (raw, tot, rtext, dice1)
     \<and> tot = raw + get_modifier s ''DEX''
     \<and> attempt_flee s dice = Inr ((ok, msg), s', dice1)
     \<and> ok = (tot \<ge> 12)
     \<and> s' = (if ok then s\<lparr>in_combat := False, current_enemy := None,
                           sneak_attack_available := True\<rparr>
              else s)"
proof -
  from roll_d20_plain [of dice "get_modifier s ''DEX''" "''DEX''"] obtain rtext
    where "roll_d20 dice (get_modifier s ''DEX'') ''DEX'' False False
       = Inr (1 + int (rng dice 0 mod 20), 1 + int (rng dice 0 mod 20) + get_modifier s ''DEX'',
              rtext, dice\<lparr>rng := \<lambda>i. rng dice (Suc i)\<rparr>)"
    by blast
  thus ?thesis by (simp add: attempt_flee_def Let_def)
qed

theorem attempt_flee_outcome_witness:
  "\<exists>msg dice1.
     attempt_flee
       (GameState_default\<lparr>in_combat := True, current_enemy := Some [(''name'', PStr ''Rat'')]\<rparr>)
       \<lparr>rng = (\<lambda>i. 11), seed = None\<rparr>
     = Inr ((True, msg),
            GameState_default\<lparr>in_combat := False, current_enemy := None,
                               sneak_attack_available := True\<rparr>,
            dice1)"
  using attempt_flee_outcome
    [of "\<lparr>rng = (\<lambda>i. 11), seed = None\<rparr>"
        "GameState_default\<lparr>in_combat := True, current_enemy := Some [(''name'', PStr ''Rat'')]\<rparr>"]
  by (auto simp: roll_d20_def randint_def Let_def get_modifier_def GameState_default_def)

subsection \<open>Player attack\<close>

lemma weapon_dice_valid:
  "weapon_damage_dice (get_equipped_weapon_data s) = (n, sz) \<Longrightarrow> n = 1 \<and> 2 \<le> sz"
  by (auto simp: get_equipped_weapon_data_def WEAPONS_def split: option.splits if_splits)

lemma weapon_after_from_dict:
  "get_equipped_weapon_data (s\<lparr>current_enemy := x\<rparr>) = get_equipped_weapon_data s"
  by (simp add: get_equipped_weapon_data_def)

lemma modifier_after_from_dict:
  "get_modifier (s\<lparr>current_enemy := x\<rparr>) stat = get_modifier s stat"
  by (simp add: get_modifier_def)

text \<open>
  One run of \<^verbatim>\<open>player_attack\<close> against a well-formed enemy snapshot (one that
  \<^verbatim>\<open>from_dict\<close> accepts, with integer \<^verbatim>\<open>ac\<close> and \<^verbatim>\<open>hp\<close>): it returns, and the result is
  described in terms of the d20 roll, of the weapon dice \<open>wr\<close> rolled next and of the two
  d6 \<open>sr\<close> that follow them in the generator.
\<close>

lemma player_attack_run:
  assumes enemy: "current_enemy s = Some d" "d \<noteq> []" "from_dict d = Inr (e, d')"
      "enemy_ac e = PInt a" "enemy_hp e = PInt h"
    and weapon: "get_equipped_weapon_data s = w" "weapon_damage_dice w = (n, sz)"
    and d20: "roll_d20 dice (get_modifier s (weapon_stat w)) (weapon_stat w) False False
               = Inr (raw, tot, rtext, dice1)"
  shows "\<exists>res s' dice' wr g2 sr g3.
     player_attack s sneak dice = Inr (res, s', dice')
     \<and> success res = (raw \<noteq> 1 \<and> (raw = 20 \<or> a \<le> tot))
     \<and> roll_each (nat (if raw = 20 then n * 2 else n)) sz (rng dice1) = Inr (wr, g2)
     \<and> length wr = nat (if raw = 20 then n * 2 else n)
     \<and> roll_each 2 6 g2 = Inr (sr, g3)
     \<and> length sr = 2
     \<and> (if success res then
           (if sneak \<and> player_class s = ''rogue'' \<and> sneak_attack_available s
            then damage res = max 1 (sum_list wr + get_modifier s (weapon_stat w)) + sum_list sr
               \<and> \<not> sneak_attack_available s' \<and> dice' = dice1\<lparr>rng := g3\<rparr>
            else damage res = max 1 (sum_list wr + get_modifier s (weapon_stat w))
               \<and> sneak_attack_available s' = sneak_attack_available s
               \<and> dice' = dice1\<lparr>rng := g2\<rparr>)
         else damage res = 0 \<and> sneak_attack_available s' = sneak_attack_available s
               \<and> dice' = dice1)"
proof -
  let ?m = "get_modifier s (weapon_stat w)"
  let ?k = "if raw = 20 then n * 2 else n"
  note upd = weapon_after_from_dict modifier_after_from_dict
  from weapon weapon_dice_valid [of s n sz] have sz: "1 \<le> sz" by simp
  from from_dict_tuples [OF enemy(3)] obtain dd gd
    where tup: "damage_dice e = PTuple dd" "gold_drop e = PTuple gd" by blast
  from roll_damage_run [OF sz, of ?k dice1 ?m "weapon_stat w"] obtain wr g2 dtext
    where w: "roll_each (nat ?k) sz (rng dice1) = Inr (wr, g2)"
      "roll_damage dice1 ?k sz ?m (weapon_stat w)
         = Inr (max 1 (sum_list wr + ?m), dtext, dice1\<lparr>rng := g2\<rparr>)"
      "length wr = nat ?k"
    by blast
  have six: "(1::int) \<le> 6" by simp
  from roll_damage_run [OF six, of 2 "dice1\<lparr>rng := g2\<rparr>" 0 "[]"] obtain sr g3
    where sn: "roll_each 2 6 g2 = Inr (sr, g3)"
      "roll (dice1\<lparr>rng := g2\<rparr>) 2 6 = Inr (sr, sum_list sr, dice1\<lparr>rng := g3\<rparr>)"
      "length sr = 2"
    by auto
  have snap: "\<And>v. \<exists>snapshot. to_dict (e\<lparr>enemy_hp := v\<rparr>) = Inr snapshot"
    using tup by (simp add: to_dict_def py_list_def)
  show ?thesis
  proof (cases "raw = 1")
    case True
    thus ?thesis using enemy weapon d20 w sn
      by (simp add: player_attack_def Let_def upd)
  next
    case False
    note not1 = this
    show ?thesis
    proof (cases "raw = 20 \<or> a \<le> tot")
      case hit: True
      show ?thesis
      proof (cases "sneak \<and> player_class s = ''rogue'' \<and> sneak_attack_available s")
        case True
        from snap [of "PInt (h - (max 1 (sum_list wr + ?m) + sum_list sr))"] obtain snapshot
          where "to_dict (e\<lparr>enemy_hp := PInt (h - (max 1 (sum_list wr + ?m) + sum_list sr))\<rparr>)
                   = Inr snapshot"
          by blast
        thus ?thesis using True hit not1 enemy weapon d20 w sn
          by (auto simp: player_attack_def Let_def upd)
      next
        case False
        from snap [of "PInt (h - max 1 (sum_list wr + ?m))"] obtain snapshot
          where "to_dict (e\<lparr>enemy_hp := PInt (h - max 1 (sum_list wr + ?m))\<rparr>) = Inr snapshot"
          by blast
        thus ?thesis using False hit not1 enemy weapon d20 w sn
          by (auto simp: player_attack_def Let_def upd)
      qed
    next
      case False
      thus ?thesis using not1 enemy weapon d20 w sn
        by (auto simp: player_attack_def Let_def upd)
    qed
  qed
qed

text \<open>
  Claim C3. Against a well-formed current enemy with armour class \<open>a\<close>, \<^verbatim>\<open>player_attack\<close>
  returns, and with \<open>raw\<close> the face of the d20 and \<open>tot\<close> the face plus the modifier of the
  weapon's stat: a raw 1 is a miss whatever \<open>tot\<close> is; a raw 20 is a hit whatever \<open>a\<close> is;
  any other face hits exactly when \<open>tot \<ge> a\<close>. The weapon dice rolled for a hit are \<open>2 * n\<close>
  after a raw 20 and \<open>n\<close> otherwise (\<open>n\<close> the weapon's dice count), and the damage reported is
  the damage of those dice, plus the two sneak-attack dice where they apply.
\<close>

theorem player_attack_hit_rule:
  assumes "current_enemy s = Some d" and "d \<noteq> []" and "from_dict d = Inr (e, d')"
    and "enemy_ac e = PInt a" and "enemy_hp e = PInt h"
    and "get_equipped_weapon_data s = w" and "weapon_damage_dice w = (n, sz)"
    and "roll_d20 dice (get_modifier s (weapon_stat w)) (weapon_stat w) False False
           = Inr (raw, tot, rtext, dice1)"
  shows "\<exists>res s' dice'.
     player_attack s sneak dice = Inr (res, s', dice')
     \<and> (raw = 1 \<longrightarrow> \<not> success res)
     \<and> (raw = 20 \<longrightarrow> success res)
     \<and> (raw \<noteq> 1 \<and> raw \<noteq> 20 \<longrightarrow> success res = (a \<le> tot))
     \<and> (\<exists>wr g2 sr g3.
           roll_each (nat (if raw = 20 then 2 * n else n)) sz (rng dice1) = Inr (wr, g2)
           \<and> length wr = nat (if raw = 20 then 2 * n else n)
           \<and> roll_each 2 6 g2 = Inr (sr, g3)
           \<and> (success res \<longrightarrow>
                damage res = max 1 (sum_list wr + get_modifier s (weapon_stat w))
                  + (if sneak \<and> player_class s = ''rogue'' \<and> sneak_attack_available s
                     then sum_list sr else 0)))"
proof -
  from player_attack_run [OF assms, of sneak] obtain res s' dice' wr g2 sr g3 where
    run: "player_attack s sneak dice = Inr (res, s', dice')"
      "success res = (raw \<noteq> 1 \<and> (raw = 20 \<or> a \<le> tot))"
      "roll_each (nat (if raw = 20 then n * 2 else n)) sz (rng dice1) = Inr (wr, g2)"
      "length wr = nat (if raw = 20 then n * 2 else n)"
      "roll_each 2 6 g2 = Inr (sr, g3)"
    and dmg: "if success res then
           (if sneak \<and> player_class s = ''rogue'' \<and> sneak_attack_available s
            then damage res = max 1 (sum_list wr + get_modifier s (weapon_stat w)) + sum_list sr
               \<and> \<not> sneak_attack_available s' \<and> dice' = dice1\<lparr>rng := g3\<rparr>
            else damage res = max 1 (sum_list wr + get_modifier s (weapon_stat w))
               \<and> sneak_attack_available s' = sneak_attack_available s
               \<and> dice' = dice1\<lparr>rng := g2\<rparr>)
         else damage res = 0 \<and> sneak_attack_available s' = sneak_attack_available s
               \<and> dice' = dice1"
    by blast
  have twice: "n * 2 = 2 * n" by simp
  have "success res \<longrightarrow>
      damage res = max 1 (sum_list wr + get_modifier s (weapon_stat w))
        + (if sneak \<and> player_class s = ''rogue'' \<and> sneak_attack_available s
           then sum_list sr else 0)"
    using dmg by (simp split: if_splits)
  moreover have "raw = 1 \<longrightarrow> \<not> success res"
    using run(2) by simp
  moreover have "raw = 20 \<longrightarrow> success res"
    using run(2) by simp
  moreover have "raw \<noteq> 1 \<and> raw \<noteq> 20 \<longrightarrow> success res = (a \<le> tot)"
    using run(2) by simp
  ultimately show ?thesis
    using run(1,3,4,5) unfolding twice by blast
qed

theorem player_attack_hit_rule_witness:
  "\<exists>res s' dice'.
     player_attack
       (GameState_default
          \<lparr>stats := [(''STR'', [(''score'', 1), (''modifier'', - 5)])],
           in_combat := True,
           current_enemy := Some
             [(''name'', PStr ''Ogre''), (''hp'', PInt 30), (''max_hp'', PInt 30),
              (''ac'', PInt 20), (''attack_bonus'', PInt 4),
              (''damage_dice'', PList [PInt 1, PInt 8]), (''damage_bonus'', PInt 2),
              (''xp'', PInt 50), (''gold_drop'', PList [PInt 1, PInt 5]),
              (''behavior'', PStr ''aggressive'')]\<rparr>)
       False \<lparr>rng = (\<lambda>i. 19), seed = None\<rparr>
     = Inr (res, s', dice') \<and> success res"
proof -
  let ?d = "[(''name'', PStr ''Ogre''), (''hp'', PInt 30), (''max_hp'', PInt 30),
              (''ac'', PInt 20), (''attack_bonus'', PInt 4),
              (''damage_dice'', PList [PInt 1, PInt 8]), (''damage_bonus'', PInt 2),
              (''xp'', PInt 50), (''gold_drop'', PList [PInt 1, PInt 5]),
              (''behavior'', PStr ''aggressive'')]"
  let ?s = "GameState_default
          \<lparr>stats := [(''STR'', [(''score'', 1), (''modifier'', - 5)])],
           in_combat := True, current_enemy := Some ?d\<rparr>"
  let ?dice = "\<lparr>rng = (\<lambda>i. 19), seed = None\<rparr>"
  let ?w = "\<lparr>weapon_damage_dice = (1, 2), weapon_stat = ''STR'', weapon_description = ''Bare fists''\<rparr>"
  have h1: "current_enemy ?s = Some ?d" by simp
  have h2: "?d \<noteq> []" by simp
  obtain e d' where h3: "from_dict ?d = Inr (e, d')" and h4: "enemy_ac e = PInt 20"
    and h5: "enemy_hp e = PInt 30"
    by (simp add: from_dict_def dict_item_def py_tuple_def Enemy_init_def kwarg_def
          dict_get_def enemy_fields_def Let_def)
  have h6: "get_equipped_weapon_data ?s = ?w"
    by (simp add: get_equipped_weapon_data_def WEAPONS_def GameState_default_def)
  have h7: "weapon_damage_dice ?w = (1, 2)" by simp
  have "\<exists>rtext dice1. roll_d20 ?dice (- 5) ''STR'' False False = Inr (20, 15, rtext, dice1)"
    using roll_d20_plain [of ?dice "- 5" "''STR''"] by auto
  then obtain rtext dice1
    where r: "roll_d20 ?dice (- 5) ''STR'' False False = Inr (20, 15, rtext, dice1)"
    by blast
  have h8:
    "roll_d20 ?dice (get_modifier ?s (weapon_stat ?w)) (weapon_stat ?w) False False
       = Inr (20, 15, rtext, dice1)"
    using r by (simp add: get_modifier_def)
  from player_attack_hit_rule [OF h1 h2 h3 h4 h5 h6 h7 h8, of False]
  show ?thesis by auto
qed

text \<open>
  Claim C10. In \<^verbatim>\<open>player_attack\<close> against a well-formed current enemy: when the attack hits
  and the sneak attack applies (it is requested, the class is rogue and
  \<^verbatim>\<open>sneak_attack_available\<close> is true), the damage is \<open>max 1 (weapon dice + modifier)\<close> plus
  the sum of exactly two d6, whether or not the hit is critical (only the weapon dice count
  doubles), and \<^verbatim>\<open>sneak_attack_available\<close> becomes false. In every other case, a miss with a
  requested sneak attack included, \<^verbatim>\<open>sneak_attack_available\<close> keeps its value and no sneak
  die is rolled.
\<close>

theorem player_attack_sneak_bonus:
  assumes "current_enemy s = Some d" and "d \<noteq> []" and "from_dict d = Inr (e, d')"
    and "enemy_ac e = PInt a" and "enemy_hp e = PInt h"
    and "get_equipped_weapon_data s = w" and "weapon_damage_dice w = (n, sz)"
    and "roll_d20 dice (get_modifier s (weapon_stat w)) (weapon_stat w) False False
           = Inr (raw, tot, rtext, dice1)"
  shows "\<exists>res s' dice' wr g2 sr g3.
     player_attack s sneak dice = Inr (res, s', dice')
     \<and> success res = (raw \<noteq> 1 \<and> (raw = 20 \<or> a \<le> tot))
     \<and> roll_each (nat (if raw = 20 then 2 * n else n)) sz (rng dice1) = Inr (wr, g2)
     \<and> roll_each 2 6 g2 = Inr (sr, g3)
     \<and> length sr = 2
     \<and> (if success res \<and> sneak \<and> player_class s = ''rogue'' \<and> sneak_attack_available s
        then damage res = max 1 (sum_list wr + get_modifier s (weapon_stat w)) + sum_list sr
           \<and> \<not> sneak_attack_available s'
           \<and> dice' = dice1\<lparr>rng := g3\<rparr>
        else sneak_attack_available s' = sneak_attack_available s
           \<and> damage res
               = (if success res then max 1 (sum_list wr + get_modifier s (weapon_stat w))
                  else 0)
           \<and> dice' = (if success res then dice1\<lparr>rng := g2\<rparr> else dice1))"
proof -
  from player_attack_run [OF assms, of sneak] obtain res s' dice' wr g2 sr g3 where
    run: "player_attack s sneak dice = Inr (res, s', dice')"
      "success res = (raw \<noteq> 1 \<and> (raw = 20 \<or> a \<le> tot))"
      "roll_each (nat (if raw = 20 then n * 2 else n)) sz (rng dice1) = Inr (wr, g2)"
      "roll_each 2 6 g2 = Inr (sr, g3)"
      "length sr = 2"
    and dmg: "if success res then
           (if sneak \<and> player_class s = ''rogue'' \<and> sneak_attack_available s
            then damage res = max 1 (sum_list wr + get_modifier s (weapon_stat w)) + sum_list sr
               \<and> \<not> sneak_attack_available s' \<and> dice' = dice1\<lparr>rng := g3\<rparr>
            else damage res = max 1 (sum_list wr + get_modifier s (weapon_stat w))
               \<and> sneak_attack_available s' = sneak_attack_available s
               \<and> dice' = dice1\<lparr>rng := g2\<rparr>)
         else damage res = 0 \<and> sneak_attack_available s' = sneak_attack_available s
               \<and> dice' = dice1"
    by blast
  have twice: "n * 2 = 2 * n" by simp
  have "if success res \<and> sneak \<and> player_class s = ''rogue'' \<and> sneak_attack_available s
        then damage res = max 1 (sum_list wr + get_modifier s (weapon_stat w)) + sum_list sr
           \<and> \<not> sneak_attack_available s'
           \<and> dice' = dice1\<lparr>rng := g3\<rparr>
        else sneak_attack_available s' = sneak_attack_available s
           \<and> damage res
               = (if success res then max 1 (sum_list wr + get_modifier s (weapon_stat w))
                  else 0)
           \<and> dice' = (if success res then dice1\<lparr>rng := g2\<rparr> else dice1)"
    using dmg by (simp split: if_splits)
  with run show ?thesis
    unfolding twice by blast
qed

theorem player_attack_sneak_bonus_witness:
  "\<exists>res s' dice'.
     player_attack
       (GameState_default
          \<lparr>player_class := ''rogue'', equipped_weapon := ''Dagger'', in_combat := True,
           current_enemy := Some
             [(''name'', PStr ''Ogre''), (''hp'', PInt 30), (''max_hp'', PInt 30),
              (''ac'', PInt 20), (''attack_bonus'', PInt 4),
              (''damage_dice'', PList [PInt 1, PInt 8]), (''damage_bonus'', PInt 2),
              (''xp'', PInt 50), (''gold_drop'', PList [PInt 1, PInt 5]),
              (''behavior'', PStr ''aggressive'')]\<rparr>)
       True \<lparr>rng = (\<lambda>i. 19), seed = None\<rparr>
     = Inr (res, s', dice')
     \<and> success res \<and> damage res = 12 \<and> \<not> sneak_attack_available s'"
proof -
  let ?d = "[(''name'', PStr ''Ogre''), (''hp'', PInt 30), (''max_hp'', PInt 30),
              (''ac'', PInt 20), (''attack_bonus'', PInt 4),
              (''damage_dice'', PList [PInt 1, PInt 8]), (''damage_bonus'', PInt 2),
              (''xp'', PInt 50), (''gold_drop'', PList [PInt 1, PInt 5]),
              (''behavior'', PStr ''aggressive'')]"
  let ?s = "GameState_default
          \<lparr>player_class := ''rogue'', equipped_weapon := ''Dagger'', in_combat := True,
           current_enemy := Some ?d\<rparr>"
  let ?dice = "\<lparr>rng = (\<lambda>i. 19), seed = None\<rparr>"
  let ?w = "\<lparr>weapon_damage_dice = (1, 4), weapon_stat = ''DEX'',
             weapon_description = ''Quick and deadly in skilled hands''\<rparr>"
  have h1: "current_enemy ?s = Some ?d" by simp
  have h2: "?d \<noteq> []" by simp
  obtain e d' where h3: "from_dict ?d = Inr (e, d')" and h4: "enemy_ac e = PInt 20"
    and h5: "enemy_hp e = PInt 30"
    by (simp add: from_dict_def dict_item_def py_tuple_def Enemy_init_def kwarg_def
          dict_get_def enemy_fields_def Let_def)
  have h6: "get_equipped_weapon_data ?s = ?w"
    by (simp add: get_equipped_weapon_data_def WEAPONS_def)
  have h7: "weapon_damage_dice ?w = (1, 4)" by simp
  have "\<exists>rtext. roll_d20 ?dice 0 ''DEX'' False False = Inr (20, 20, rtext, ?dice)"
    using roll_d20_plain [of ?dice 0 "''DEX''"] by auto
  then obtain rtext
    where r: "roll_d20 ?dice 0 ''DEX'' False False = Inr (20, 20, rtext, ?dice)"
    by blast
  have h8:
    "roll_d20 ?dice (get_modifier ?s (weapon_stat ?w)) (weapon_stat ?w) False False
       = Inr (20, 20, rtext, ?dice)"
    using r by (simp add: get_modifier_def GameState_default_def)
  have avail: "sneak_attack_available ?s" "player_class ?s = ''rogue''"
    "get_modifier ?s (weapon_stat ?w) = 0"
    by (simp_all add: GameState_default_def get_modifier_def)
  have dice4: "roll_each (nat (2 * 1)) 4 (\<lambda>i. 19) = Inr ([4, 4], \<lambda>i. 19)"
    by (simp add: numeral_2_eq_2 randint_def)
  have dice6: "roll_each 2 6 (\<lambda>i. 19) = Inr ([2, 2], \<lambda>i. 19)"
    by (simp add: numeral_2_eq_2 randint_def)
  from player_attack_sneak_bonus [OF h1 h2 h3 h4 h5 h6 h7 h8, of True]
  show ?thesis
    using avail dice4 dice6 by auto
qed

end
